theory Spec2Isabelle
  imports Main "HOL-Library.Word"
begin

section \<open>Memory model\<close>

text \<open>
  The list of \<^verbatim>\<open>list.hpp\<close> is built from heap nodes joined by raw pointers, and several
  of its operations depend on which node a pointer still names after another node was
  unlinked or deleted. The model therefore keeps an explicit store: a pointer is
  \<open>None\<close> (the C++ \<^verbatim>\<open>NULL\<close>) or \<open>Some a\<close> for an address \<open>a\<close>, and the store maps the address
  of every live node to its three fields. \<^verbatim>\<open>new\<close> hands out the next unused address and
  \<^verbatim>\<open>delete\<close> removes the cell. Dereferencing \<^verbatim>\<open>NULL\<close> or a deleted node is undefined
  behaviour in C++; the model reports it as an error value.
  \<^verbatim>\<open>usize\<close> is \<^verbatim>\<open>std::size_t\<close>, taken as an unsigned 64-bit word, so that
  \<^verbatim>\<open>_len - 1\<close> on an empty list wraps as it does in the source.
\<close>

type_synonym addr = nat
type_synonym usize = "64 word"

datatype error = IndexOutOfRange | NullPointer | DanglingPointer

record 'a Node =
  n_value :: 'a
  n_back :: "addr option"
  n_next :: "addr option"

record 'a mem =
  cells :: "addr \<Rightarrow> 'a Node option"
  fresh :: addr

record dllist =
  len :: usize
  head :: "addr option"
  tail :: "addr option"

definition NO_POS :: usize where
  "NO_POS = - 1"

definition bindE :: "'e + 'a \<Rightarrow> ('a \<Rightarrow> 'e + 'b) \<Rightarrow> 'e + 'b" where
  "bindE r f = (case r of Inl e \<Rightarrow> Inl e | Inr x \<Rightarrow> f x)"

definition empty_mem :: "'a mem" where
  "empty_mem = \<lparr>cells = (\<lambda>a. None), fresh = 0\<rparr>"

definition load :: "'a mem \<Rightarrow> addr \<Rightarrow> error + 'a Node" where
  "load m a = (case cells m a of None \<Rightarrow> Inl DanglingPointer | Some nd \<Rightarrow> Inr nd)"

definition store :: "'a mem \<Rightarrow> addr \<Rightarrow> 'a Node \<Rightarrow> 'a mem" where
  "store m a nd = m\<lparr>cells := (cells m)(a \<mapsto> nd)\<rparr>"

text \<open>\<^verbatim>\<open>new Node<T>(value, back, next)\<close>: the address returned was never used before.\<close>

definition new :: "'a Node \<Rightarrow> 'a mem \<Rightarrow> addr \<times> 'a mem" where
  "new nd m = (fresh m, \<lparr>cells = (cells m)(fresh m \<mapsto> nd), fresh = Suc (fresh m)\<rparr>)"

text \<open>\<^verbatim>\<open>delete node\<close>.\<close>

definition delete :: "addr \<Rightarrow> 'a mem \<Rightarrow> error + 'a mem" where
  "delete a m = (case cells m a of None \<Rightarrow> Inl DanglingPointer
                 | Some nd \<Rightarrow> Inr (m\<lparr>cells := (cells m)(a := None)\<rparr>))"

section \<open>Node: link primitives\<close>

definition node_value :: "addr \<Rightarrow> 'a mem \<Rightarrow> error + 'a" where
  "node_value this m = bindE (load m this) (\<lambda>nd. Inr (n_value nd))"

definition node_back :: "addr \<Rightarrow> 'a mem \<Rightarrow> error + addr option" where
  "node_back this m = bindE (load m this) (\<lambda>nd. Inr (n_back nd))"

definition node_next :: "addr \<Rightarrow> 'a mem \<Rightarrow> error + addr option" where
  "node_next this m = bindE (load m this) (\<lambda>nd. Inr (n_next nd))"

definition setBack :: "addr \<Rightarrow> addr option \<Rightarrow> 'a mem \<Rightarrow> error + 'a mem" where
  "setBack this node m = bindE (load m this) (\<lambda>nd. Inr (store m this (nd\<lparr>n_back := node\<rparr>)))"

definition setNext :: "addr \<Rightarrow> addr option \<Rightarrow> 'a mem \<Rightarrow> error + 'a mem" where
  "setNext this node m = bindE (load m this) (\<lambda>nd. Inr (store m this (nd\<lparr>n_next := node\<rparr>)))"

text \<open>\<^verbatim>\<open>Node::reverse\<close>: \<^verbatim>\<open>std::swap(_next, _back)\<close>.\<close>

definition node_reverse :: "addr \<Rightarrow> 'a mem \<Rightarrow> error + 'a mem" where
  "node_reverse this m =
     bindE (load m this) (\<lambda>nd. Inr (store m this (nd\<lparr>n_back := n_next nd, n_next := n_back nd\<rparr>)))"

text \<open>
  \<^verbatim>\<open>Node::unlink\<close>. Each statement reads the fields of \<^verbatim>\<open>this\<close> again, as the source does
  (they differ from the first reading only when a node is its own neighbour).
\<close>

definition unlink :: "addr \<Rightarrow> 'a mem \<Rightarrow> error + 'a mem" where
  "unlink this m =
     bindE (node_back this m) (\<lambda>b.
     bindE (node_next this m) (\<lambda>n.
     bindE (case b of None \<Rightarrow> Inr m | Some b' \<Rightarrow> setNext b' n m) (\<lambda>m1.
     bindE (node_next this m1) (\<lambda>n1.
     bindE (node_back this m1) (\<lambda>b1.
     bindE (case n1 of None \<Rightarrow> Inr m1 | Some n' \<Rightarrow> setBack n' b1 m1) (\<lambda>m2.
     bindE (setBack this None m2) (\<lambda>m3.
     setNext this None m3)))))))"

text \<open>\<^verbatim>\<open>Node::linkNext\<close>: no-op when \<^verbatim>\<open>next\<close> is \<^verbatim>\<open>NULL\<close> or \<^verbatim>\<open>this\<close>.\<close>

definition linkNext :: "addr \<Rightarrow> addr option \<Rightarrow> 'a mem \<Rightarrow> error + 'a mem" where
  "linkNext this nx m =
     (case nx of None \<Rightarrow> Inr m
      | Some n \<Rightarrow>
          if n = this then Inr m
          else
            bindE (unlink n m) (\<lambda>m1.
            bindE (node_next this m1) (\<lambda>tn.
            bindE (case tn of None \<Rightarrow> Inr m1
                   | Some t \<Rightarrow> bindE (setNext n (Some t) m1) (\<lambda>m'. setBack t (Some n) m')) (\<lambda>m2.
            bindE (setBack n (Some this) m2) (\<lambda>m3.
            setNext this (Some n) m3)))))"

text \<open>\<^verbatim>\<open>Node::linkBack\<close>, the mirror image.\<close>

definition linkBack :: "addr \<Rightarrow> addr option \<Rightarrow> 'a mem \<Rightarrow> error + 'a mem" where
  "linkBack this bk m =
     (case bk of None \<Rightarrow> Inr m
      | Some b \<Rightarrow>
          if b = this then Inr m
          else
            bindE (unlink b m) (\<lambda>m1.
            bindE (node_back this m1) (\<lambda>tb.
            bindE (case tb of None \<Rightarrow> Inr m1
                   | Some t \<Rightarrow> bindE (setBack b (Some t) m1) (\<lambda>m'. setNext t (Some b) m')) (\<lambda>m2.
            bindE (setNext b (Some this) m2) (\<lambda>m3.
            setBack this (Some b) m3)))))"

text \<open>
  \<^verbatim>\<open>Node::operator+(usize at)\<close> and \<^verbatim>\<open>operator-\<close>: the loop \<^verbatim>\<open>for (; at > 0; at--)\<close> runs
  \<open>unat at\<close> times; each round dereferences \<^verbatim>\<open>it\<close>.
\<close>

primrec hops_next :: "'a mem \<Rightarrow> addr option \<Rightarrow> nat \<Rightarrow> error + addr option" where
  "hops_next m it 0 = Inr it"
| "hops_next m it (Suc k) =
     (case it of None \<Rightarrow> Inl NullPointer
      | Some a \<Rightarrow> bindE (load m a) (\<lambda>nd. hops_next m (n_next nd) k))"

primrec hops_back :: "'a mem \<Rightarrow> addr option \<Rightarrow> nat \<Rightarrow> error + addr option" where
  "hops_back m it 0 = Inr it"
| "hops_back m it (Suc k) =
     (case it of None \<Rightarrow> Inl NullPointer
      | Some a \<Rightarrow> bindE (load m a) (\<lambda>nd. hops_back m (n_back nd) k))"

definition node_plus :: "'a mem \<Rightarrow> addr \<Rightarrow> usize \<Rightarrow> error + addr option" where
  "node_plus m this at = hops_next m (Some this) (unat at)"

definition node_minus :: "'a mem \<Rightarrow> addr \<Rightarrow> usize \<Rightarrow> error + addr option" where
  "node_minus m this at = hops_back m (Some this) (unat at)"

section \<open>List: endpoint operations and positional access\<close>

text \<open>\<^verbatim>\<open>List()\<close>.\<close>

definition List_new :: dllist where
  "List_new = \<lparr>len = 0, head = None, tail = None\<rparr>"

definition empty :: "dllist \<Rightarrow> bool" where
  "empty l = (len l = 0)"

definition pushFront :: "'a mem \<Rightarrow> dllist \<Rightarrow> 'a \<Rightarrow> error + ('a mem \<times> dllist)" where
  "pushFront m l v =
     (let (node, m1) = new \<lparr>n_value = v, n_back = None, n_next = head l\<rparr> m in
      bindE (case head l of Some h \<Rightarrow> bindE (setBack h (Some node) m1) (\<lambda>m2. Inr (m2, l))
             | None \<Rightarrow> Inr (m1, l\<lparr>tail := Some node\<rparr>)) (\<lambda>(m2, l1).
      Inr (m2, l1\<lparr>head := Some node, len := len l1 + 1\<rparr>)))"

definition pushBack :: "'a mem \<Rightarrow> dllist \<Rightarrow> 'a \<Rightarrow> error + ('a mem \<times> dllist)" where
  "pushBack m l v =
     (let (node, m1) = new \<lparr>n_value = v, n_back = tail l, n_next = None\<rparr> m in
      bindE (case tail l of Some t \<Rightarrow> bindE (setNext t (Some node) m1) (\<lambda>m2. Inr (m2, l))
             | None \<Rightarrow> Inr (m1, l\<lparr>head := Some node\<rparr>)) (\<lambda>(m2, l1).
      Inr (m2, l1\<lparr>tail := Some node, len := len l1 + 1\<rparr>)))"

definition popFront :: "'a mem \<Rightarrow> dllist \<Rightarrow> error + ('a mem \<times> dllist \<times> 'a)" where
  "popFront m l =
     (case head l of None \<Rightarrow> Inl NullPointer
      | Some node \<Rightarrow>
          bindE (node_value node m) (\<lambda>v.
          bindE (node_next node m) (\<lambda>n.
          (let l1 = l\<lparr>len := len l - 1, head := n\<rparr>;
               l2 = (if head l1 = None then l1\<lparr>tail := None\<rparr> else l1) in
           bindE (unlink node m) (\<lambda>m1.
           bindE (delete node m1) (\<lambda>m2.
           Inr (m2, l2, v)))))))"

definition popBack :: "'a mem \<Rightarrow> dllist \<Rightarrow> error + ('a mem \<times> dllist \<times> 'a)" where
  "popBack m l =
     (case tail l of None \<Rightarrow> Inl NullPointer
      | Some node \<Rightarrow>
          bindE (node_value node m) (\<lambda>v.
          bindE (node_back node m) (\<lambda>b.
          (let l1 = l\<lparr>len := len l - 1, tail := b\<rparr>;
               l2 = (if tail l1 = None then l1\<lparr>head := None\<rparr> else l1) in
           bindE (unlink node m) (\<lambda>m1.
           bindE (delete node m1) (\<lambda>m2.
           Inr (m2, l2, v)))))))"

text \<open>\<^verbatim>\<open>List::atNode\<close> (private): no bounds check.\<close>

definition atNode :: "'a mem \<Rightarrow> dllist \<Rightarrow> usize \<Rightarrow> error + addr option" where
  "atNode m l at =
     (if at = 0 then Inr (head l)
      else if at = len l - 1 then Inr (tail l)
      else if at \<le> len l div 2 then
        (case head l of None \<Rightarrow> Inl NullPointer | Some h \<Rightarrow> node_plus m h at)
      else
        (case tail l of None \<Rightarrow> Inl NullPointer | Some t \<Rightarrow> node_minus m t (len l - at - 1)))"

text \<open>\<^verbatim>\<open>List::at\<close>: throws \<^verbatim>\<open>std::out_of_range\<close> when \<^verbatim>\<open>at >= _len\<close>.\<close>

definition at :: "'a mem \<Rightarrow> dllist \<Rightarrow> usize \<Rightarrow> error + 'a" where
  "at m l i =
     (if i \<ge> len l then Inl IndexOutOfRange
      else bindE (atNode m l i) (\<lambda>p.
           case p of None \<Rightarrow> Inl NullPointer | Some a \<Rightarrow> node_value a m))"

text \<open>\<^verbatim>\<open>List::insert\<close> (private), and its two public entries.\<close>

definition list_insert :: "'a mem \<Rightarrow> dllist \<Rightarrow> 'a \<Rightarrow> usize \<Rightarrow> bool \<Rightarrow> error + ('a mem \<times> dllist)" where
  "list_insert m l v i backwarded =
     (if i = 0 \<and> backwarded then pushFront m l v
      else if i \<ge> len l then pushBack m l v
      else if i = len l - 1 \<and> \<not> backwarded then pushBack m l v
      else
        bindE (atNode m l i) (\<lambda>p.
        case p of None \<Rightarrow> Inl NullPointer
        | Some node \<Rightarrow>
            (let (a, m1) = new \<lparr>n_value = v, n_back = None, n_next = None\<rparr> m in
             bindE (if backwarded then linkBack node (Some a) m1 else linkNext node (Some a) m1)
               (\<lambda>m2. Inr (m2, l\<lparr>len := len l + 1\<rparr>)))))"

definition insertForward :: "'a mem \<Rightarrow> dllist \<Rightarrow> 'a \<Rightarrow> usize \<Rightarrow> error + ('a mem \<times> dllist)" where
  "insertForward m l v i = list_insert m l v i False"

definition insertBackward :: "'a mem \<Rightarrow> dllist \<Rightarrow> 'a \<Rightarrow> usize \<Rightarrow> error + ('a mem \<times> dllist)" where
  "insertBackward m l v i = list_insert m l v i True"

section \<open>List: search\<close>

text \<open>
  The loops that follow \<^verbatim>\<open>next\<close> until \<^verbatim>\<open>NULL\<close> end only when the chain does; on a
  store whose chain is cyclic they run forever. They are partial functions into
  \<open>option\<close>: \<open>None\<close> is "does not return", \<open>Some (Inl e)\<close> undefined behaviour met on
  the way, \<open>Some (Inr r)\<close> the value returned.
\<close>

partial_function (option) find_loop ::
  "'a mem \<Rightarrow> 'a \<Rightarrow> addr option \<Rightarrow> usize \<Rightarrow> (error + usize) option" where
  "find_loop m v it i =
     (case it of None \<Rightarrow> Some (Inr NO_POS)
      | Some a \<Rightarrow>
          (case cells m a of None \<Rightarrow> Some (Inl DanglingPointer)
           | Some nd \<Rightarrow>
               if n_value nd = v then Some (Inr i)
               else find_loop m v (n_next nd) (i + 1)))"

text \<open>\<^verbatim>\<open>List::find(value, skip)\<close>.\<close>

definition list_find :: "'a mem \<Rightarrow> dllist \<Rightarrow> 'a \<Rightarrow> usize \<Rightarrow> (error + usize) option" where
  "list_find m l v skip =
     (if skip \<ge> len l then Some (Inr NO_POS)
      else
        (case head l of None \<Rightarrow> Some (Inl NullPointer)
         | Some h \<Rightarrow>
             (case node_plus m h skip of Inl e \<Rightarrow> Some (Inl e)
              | Inr it \<Rightarrow> find_loop m v it skip)))"

text \<open>\<^verbatim>\<open>List::contains(const T&)\<close>: \<^verbatim>\<open>find(value) != NO_POS\<close>, with the default \<^verbatim>\<open>skip = 0\<close>.\<close>

definition contains :: "'a mem \<Rightarrow> dllist \<Rightarrow> 'a \<Rightarrow> (error + bool) option" where
  "contains m l v =
     Option.bind (list_find m l v 0) (\<lambda>r.
       case r of Inl e \<Rightarrow> Some (Inl e) | Inr p \<Rightarrow> Some (Inr (p \<noteq> NO_POS)))"

text \<open>\<^verbatim>\<open>List::contains(const List<T>&)\<close>: the loop over the nodes of \<^verbatim>\<open>other\<close>.\<close>

partial_function (option) contains_loop ::
  "'a mem \<Rightarrow> dllist \<Rightarrow> addr option \<Rightarrow> (error + bool) option" where
  "contains_loop m l it =
     (case it of None \<Rightarrow> Some (Inr True)
      | Some a \<Rightarrow>
          (case cells m a of None \<Rightarrow> Some (Inl DanglingPointer)
           | Some nd \<Rightarrow>
               Option.bind (contains m l (n_value nd)) (\<lambda>r.
                 case r of Inl e \<Rightarrow> Some (Inl e)
                 | Inr b \<Rightarrow> if \<not> b then Some (Inr False) else contains_loop m l (n_next nd))))"

definition contains_list :: "'a mem \<Rightarrow> dllist \<Rightarrow> dllist \<Rightarrow> (error + bool) option" where
  "contains_list m l other = contains_loop m l (head other)"

section \<open>List: removal and filtering\<close>

text \<open>
  \<^verbatim>\<open>List::remove\<close>. Its first two branches call \<^verbatim>\<open>popFront\<close> or \<^verbatim>\<open>popBack\<close>, drop the
  value they return, and leave by \<^verbatim>\<open>return;\<close> without a value. The third component of
  the result is the value handed back to the caller: \<open>None\<close> where the source returns
  none.
\<close>

definition remove :: "'a mem \<Rightarrow> dllist \<Rightarrow> usize \<Rightarrow> error + ('a mem \<times> dllist \<times> 'a option)" where
  "remove m l i =
     (if i = 0 then bindE (popFront m l) (\<lambda>(m1, l1, v). Inr (m1, l1, None))
      else if i \<ge> len l - 1 then bindE (popBack m l) (\<lambda>(m1, l1, v). Inr (m1, l1, None))
      else
        bindE (atNode m l i) (\<lambda>p.
        case p of None \<Rightarrow> Inl NullPointer
        | Some node \<Rightarrow>
            bindE (node_value node m) (\<lambda>v.
            bindE (unlink node m) (\<lambda>m1.
            bindE (delete node m1) (\<lambda>m2.
            Inr (m2, l\<lparr>len := len l - 1\<rparr>, Some v))))))"

text \<open>
  \<^verbatim>\<open>List::retainIf(filter)\<close>: the loop, with the list's fields and the store as state.
  A removed node that is \<^verbatim>\<open>head\<close> or \<^verbatim>\<open>tail\<close> has that field set to its \<^verbatim>\<open>next\<close>.
\<close>

partial_function (option) retainIf_loop ::
  "('a \<Rightarrow> bool) \<Rightarrow> 'a mem \<Rightarrow> dllist \<Rightarrow> addr option \<Rightarrow> (error + 'a mem \<times> dllist) option" where
  "retainIf_loop filter_f m l it =
     (case it of None \<Rightarrow> Some (Inr (m, l))
      | Some a \<Rightarrow>
          (case cells m a of None \<Rightarrow> Some (Inl DanglingPointer)
           | Some nd \<Rightarrow>
               if filter_f (n_value nd) then retainIf_loop filter_f m l (n_next nd)
               else
                 (case bindE (unlink a m) (delete a) of Inl e \<Rightarrow> Some (Inl e)
                  | Inr m1 \<Rightarrow>
                      retainIf_loop filter_f m1
                        \<lparr>len = len l - 1,
                         head = (if Some a = head l then n_next nd else head l),
                         tail = (if Some a = tail l then n_next nd else tail l)\<rparr>
                        (n_next nd))))"

definition retainIf :: "'a mem \<Rightarrow> dllist \<Rightarrow> ('a \<Rightarrow> bool) \<Rightarrow> (error + 'a mem \<times> dllist \<times> usize) option" where
  "retainIf m l filter_f =
     Option.bind (retainIf_loop filter_f m l (head l)) (\<lambda>r.
       case r of Inl e \<Rightarrow> Some (Inl e)
       | Inr (m1, l1) \<Rightarrow> Some (Inr (m1, l1, len l - len l1)))"

text \<open>
  \<^verbatim>\<open>List::removeIf(filter)\<close>: the loop decrements \<^verbatim>\<open>_len\<close>, unlinks and deletes the node;
  it assigns neither \<^verbatim>\<open>head\<close> nor \<^verbatim>\<open>tail\<close>.
\<close>

partial_function (option) removeIf_loop ::
  "('a \<Rightarrow> bool) \<Rightarrow> 'a mem \<Rightarrow> dllist \<Rightarrow> addr option \<Rightarrow> (error + 'a mem \<times> dllist) option" where
  "removeIf_loop filter_f m l it =
     (case it of None \<Rightarrow> Some (Inr (m, l))
      | Some a \<Rightarrow>
          (case cells m a of None \<Rightarrow> Some (Inl DanglingPointer)
           | Some nd \<Rightarrow>
               if filter_f (n_value nd) then
                 (case bindE (unlink a m) (delete a) of Inl e \<Rightarrow> Some (Inl e)
                  | Inr m1 \<Rightarrow> removeIf_loop filter_f m1 (l\<lparr>len := len l - 1\<rparr>) (n_next nd))
               else removeIf_loop filter_f m l (n_next nd)))"

definition removeIf :: "'a mem \<Rightarrow> dllist \<Rightarrow> ('a \<Rightarrow> bool) \<Rightarrow> (error + 'a mem \<times> dllist \<times> usize) option" where
  "removeIf m l filter_f =
     Option.bind (removeIf_loop filter_f m l (head l)) (\<lambda>r.
       case r of Inl e \<Rightarrow> Some (Inl e)
       | Inr (m1, l1) \<Rightarrow> Some (Inr (m1, l1, len l - len l1)))"

section \<open>List: splice, slice, reverse\<close>

text \<open>
  Modelled from the spec: \<^verbatim>\<open>isEmpty()\<close>, which \<^verbatim>\<open>append\<close> and \<^verbatim>\<open>reverse\<close> call but no class
  of the repository declares. The spec has one emptiness test, delegated by the adapters as
  \<^verbatim>\<open>empty\<close>, and states that the length is 0 exactly for the empty list; \<open>isEmpty\<close> is that test.
\<close>

definition isEmpty :: "dllist \<Rightarrow> bool" where
  "isEmpty l = (len l = 0)"

text \<open>
  \<^verbatim>\<open>List::swap\<close>, for two distinct list objects (the model passes the two lists as separate
  values, so the branch \<^verbatim>\<open>this == &other\<close> does not arise). The result is the pair of the new
  \<^verbatim>\<open>this\<close> and the new \<^verbatim>\<open>other\<close>.
\<close>

definition list_swap :: "dllist \<Rightarrow> dllist \<Rightarrow> dllist \<times> dllist" where
  "list_swap l other = (other, l)"

text \<open>\<^verbatim>\<open>List::append(other)\<close>: returns the store, the new \<^verbatim>\<open>this\<close> and the new \<^verbatim>\<open>other\<close>.\<close>

definition list_append :: "'a mem \<Rightarrow> dllist \<Rightarrow> dllist \<Rightarrow> error + ('a mem \<times> dllist \<times> dllist)" where
  "list_append m l other =
     (if isEmpty other then Inr (m, l, other)
      else if len l = 0 then (case list_swap l other of (l1, other1) \<Rightarrow> Inr (m, l1, other1))
      else
        (case tail l of None \<Rightarrow> Inl NullPointer
         | Some t \<Rightarrow>
             bindE (setNext t (head other) m) (\<lambda>m1.
             (case head other of None \<Rightarrow> Inl NullPointer
              | Some h \<Rightarrow>
                  bindE (setBack h (tail l) m1) (\<lambda>m2.
                  Inr (m2,
                       l\<lparr>len := len l + len other, tail := tail other\<rparr>,
                       \<lparr>len = 0, head = None, tail = None\<rparr>))))))"

text \<open>\<^verbatim>\<open>List::clear\<close>: deletes every node met from \<^verbatim>\<open>head\<close>, then resets the fields.\<close>

partial_function (option) clear_loop :: "'a mem \<Rightarrow> addr option \<Rightarrow> (error + 'a mem) option" where
  "clear_loop m it =
     (case it of None \<Rightarrow> Some (Inr m)
      | Some a \<Rightarrow>
          (case node_next a m of Inl e \<Rightarrow> Some (Inl e)
           | Inr n \<Rightarrow>
               (case delete a m of Inl e \<Rightarrow> Some (Inl e)
                | Inr m1 \<Rightarrow> clear_loop m1 n)))"

definition clear :: "'a mem \<Rightarrow> dllist \<Rightarrow> (error + 'a mem \<times> dllist) option" where
  "clear m l =
     Option.bind (clear_loop m (head l)) (\<lambda>r.
       case r of Inl e \<Rightarrow> Some (Inl e)
       | Inr m1 \<Rightarrow> Some (Inr (m1, \<lparr>len = 0, head = None, tail = None\<rparr>)))"

text \<open>
  \<^verbatim>\<open>List::operator=(const List<T>&)\<close> for two distinct list objects: \<^verbatim>\<open>clear()\<close>, take over
  \<^verbatim>\<open>_len\<close>, then one fresh node per node met from \<^verbatim>\<open>other.head\<close>, and \<^verbatim>\<open>tail\<close> is the last
  node made. The loop carries the store, \<^verbatim>\<open>this\<close> and \<^verbatim>\<open>previous\<close>.
\<close>

partial_function (option) assign_loop ::
  "'a mem \<Rightarrow> dllist \<Rightarrow> addr option \<Rightarrow> addr option
     \<Rightarrow> (error + 'a mem \<times> dllist \<times> addr option) option" where
  "assign_loop m l it previous =
     (case it of None \<Rightarrow> Some (Inr (m, l, previous))
      | Some a \<Rightarrow>
          (case cells m a of None \<Rightarrow> Some (Inl DanglingPointer)
           | Some nd \<Rightarrow>
               (case new \<lparr>n_value = n_value nd, n_back = None, n_next = None\<rparr> m of
                  (current, m1) \<Rightarrow>
                    (case (case previous of
                             Some p \<Rightarrow>
                               bindE (setBack current (Some p) m1) (\<lambda>m2.
                               bindE (setNext p (Some current) m2) (\<lambda>m3. Inr (m3, l)))
                           | None \<Rightarrow> Inr (m1, l\<lparr>head := Some current\<rparr>)) of
                       Inl e \<Rightarrow> Some (Inl e)
                     | Inr (m4, l1) \<Rightarrow>
                         (case node_next a m4 of Inl e \<Rightarrow> Some (Inl e)
                          | Inr n \<Rightarrow> assign_loop m4 l1 n (Some current))))))"

definition assign :: "'a mem \<Rightarrow> dllist \<Rightarrow> dllist \<Rightarrow> (error + 'a mem \<times> dllist) option" where
  "assign m l other =
     Option.bind (clear m l) (\<lambda>r.
       case r of Inl e \<Rightarrow> Some (Inl e)
       | Inr (m1, l1) \<Rightarrow>
           Option.bind (assign_loop m1 (l1\<lparr>len := len other\<rparr>) (head other) None) (\<lambda>r2.
             case r2 of Inl e \<Rightarrow> Some (Inl e)
             | Inr (m2, l2, previous) \<Rightarrow> Some (Inr (m2, l2\<lparr>tail := previous\<rparr>))))"

text \<open>
  \<^verbatim>\<open>List(const List<T>& other)\<close>: the fields are set as in \<^verbatim>\<open>List()\<close>, then \<^verbatim>\<open>*this = other\<close>.
  \<^verbatim>\<open>~List()\<close> is \<^verbatim>\<open>clear()\<close>.
\<close>

definition List_copy :: "'a mem \<Rightarrow> dllist \<Rightarrow> (error + 'a mem \<times> dllist) option" where
  "List_copy m other = assign m List_new other"

text \<open>
  \<^verbatim>\<open>List::sliceOff(start, end)\<close>: returns the store, \<^verbatim>\<open>this\<close> and the list returned. The
  source assigns no field of \<^verbatim>\<open>this\<close>. Of the local \<^verbatim>\<open>extractedList\<close> it assigns \<^verbatim>\<open>_len\<close>,
  \<^verbatim>\<open>head\<close> and a member \<^verbatim>\<open>_end\<close>; the class declares \<^verbatim>\<open>_len\<close>, \<^verbatim>\<open>head\<close> and \<^verbatim>\<open>tail\<close> only, so
  its \<^verbatim>\<open>tail\<close> keeps the \<^verbatim>\<open>NULL\<close> of the default constructor. \<^verbatim>\<open>return extractedList;\<close>
  returns by value: the result is copy-constructed from the local (the class has no other
  way to hand a list over), and the local is then destroyed, which deletes the nodes of
  the range. The early \<^verbatim>\<open>return List<T>();\<close> returns an empty list, whose copy is the empty
  list again and touches no node.
\<close>

definition sliceOff ::
  "'a mem \<Rightarrow> dllist \<Rightarrow> usize \<Rightarrow> usize \<Rightarrow> (error + 'a mem \<times> dllist \<times> dllist) option" where
  "sliceOff m l start0 end0 =
     (let start = (if start0 \<ge> len l then len l else start0);
          stop = (if end0 > len l then len l else end0) in
      if start \<ge> stop then Some (Inr (m, l, List_new))
      else
        (case
           bindE (atNode m l start) (\<lambda>startNode.
           bindE (atNode m l (stop - 1)) (\<lambda>endNode.
           case startNode of None \<Rightarrow> Inl NullPointer
           | Some s \<Rightarrow>
               (case endNode of None \<Rightarrow> Inl NullPointer
                | Some e \<Rightarrow>
                    bindE (node_back s m) (\<lambda>backNode.
                    bindE (node_next e m) (\<lambda>nextNode.
                    bindE (case backNode of None \<Rightarrow> Inr m | Some b \<Rightarrow> setNext b nextNode m) (\<lambda>m1.
                    bindE (case nextNode of None \<Rightarrow> Inr m1 | Some n \<Rightarrow> setBack n backNode m1) (\<lambda>m2.
                    bindE (setBack s None m2) (\<lambda>m3.
                    bindE (setNext e None m3) (\<lambda>m4.
                    Inr (m4, List_new\<lparr>len := stop - start, head := Some s\<rparr>))))))))))
         of Inl e \<Rightarrow> Some (Inl e)
         | Inr (m4, extractedList) \<Rightarrow>
             Option.bind (List_copy m4 extractedList) (\<lambda>r.
               case r of Inl e \<Rightarrow> Some (Inl e)
               | Inr (m5, result) \<Rightarrow>
                   Option.bind (clear m5 extractedList) (\<lambda>r2.
                     case r2 of Inl e \<Rightarrow> Some (Inl e)
                     | Inr (m6, dead) \<Rightarrow> Some (Inr (m6, l, result))))))"

text \<open>
  \<^verbatim>\<open>List::reverse\<close>: the loop reverses the node and moves on by \<^verbatim>\<open>back()\<close>, which after the
  exchange is the old \<^verbatim>\<open>next\<close>.
\<close>

partial_function (option) reverse_loop :: "'a mem \<Rightarrow> addr option \<Rightarrow> (error + 'a mem) option" where
  "reverse_loop m it =
     (case it of None \<Rightarrow> Some (Inr m)
      | Some a \<Rightarrow>
          (case node_reverse a m of Inl e \<Rightarrow> Some (Inl e)
           | Inr m1 \<Rightarrow>
               (case node_back a m1 of Inl e \<Rightarrow> Some (Inl e)
                | Inr b \<Rightarrow> reverse_loop m1 b)))"

definition list_reverse :: "'a mem \<Rightarrow> dllist \<Rightarrow> (error + 'a mem \<times> dllist) option" where
  "list_reverse m l =
     (if isEmpty l then Some (Inr (m, l))
      else
        Option.bind (reverse_loop m (head l)) (\<lambda>r.
          case r of Inl e \<Rightarrow> Some (Inl e)
          | Inr m1 \<Rightarrow> Some (Inr (m1, l\<lparr>head := tail l, tail := head l\<rparr>))))"

section \<open>Stack adapter\<close>

text \<open>\<^verbatim>\<open>Stack<T>\<close> with the default container: one \<^verbatim>\<open>List<T>\<close> held by value.\<close>

record Stack =
  container :: dllist

definition stack_push :: "'a mem \<Rightarrow> Stack \<Rightarrow> 'a \<Rightarrow> error + ('a mem \<times> Stack)" where
  "stack_push m s v = bindE (pushBack m (container s) v) (\<lambda>(m1, l1). Inr (m1, s\<lparr>container := l1\<rparr>))"

definition stack_pop :: "'a mem \<Rightarrow> Stack \<Rightarrow> error + ('a mem \<times> Stack \<times> 'a)" where
  "stack_pop m s = bindE (popBack m (container s)) (\<lambda>(m1, l1, v). Inr (m1, s\<lparr>container := l1\<rparr>, v))"

definition stack_reverse :: "'a mem \<Rightarrow> Stack \<Rightarrow> (error + 'a mem \<times> Stack) option" where
  "stack_reverse m s =
     Option.bind (list_reverse m (container s)) (\<lambda>r.
       case r of Inl e \<Rightarrow> Some (Inl e)
       | Inr (m1, l1) \<Rightarrow> Some (Inr (m1, s\<lparr>container := l1\<rparr>)))"

text \<open>\<^verbatim>\<open>Stack::append(other)\<close>: \<^verbatim>\<open>other.reverse()\<close>, then \<^verbatim>\<open>container.append(other.container)\<close>.\<close>

definition stack_append :: "'a mem \<Rightarrow> Stack \<Rightarrow> Stack \<Rightarrow> (error + 'a mem \<times> Stack \<times> Stack) option" where
  "stack_append m s other =
     Option.bind (stack_reverse m other) (\<lambda>r.
       case r of Inl e \<Rightarrow> Some (Inl e)
       | Inr (m1, other1) \<Rightarrow>
           (case list_append m1 (container s) (container other1) of Inl e \<Rightarrow> Some (Inl e)
            | Inr (m2, l2, o2) \<Rightarrow>
                Some (Inr (m2, s\<lparr>container := l2\<rparr>, other1\<lparr>container := o2\<rparr>))))"



text \<open>
  \<^verbatim>\<open>s.append(s)\<close>, a stack appended to itself: \<^verbatim>\<open>other\<close> is \<^verbatim>\<open>this\<close>, so in \<^verbatim>\<open>List::append\<close>
  every read of \<^verbatim>\<open>other\<close> reads \<^verbatim>\<open>this\<close> and the three final assignments to \<^verbatim>\<open>other\<close> reset
  \<^verbatim>\<open>this\<close> (\<^verbatim>\<open>swap\<close> returns at once when \<^verbatim>\<open>this == &other\<close>).
\<close>

definition list_append_self :: "'a mem \<Rightarrow> dllist \<Rightarrow> error + ('a mem \<times> dllist)" where
  "list_append_self m l =
     (if isEmpty l then Inr (m, l)
      else if len l = 0 then Inr (m, l)
      else
        (case tail l of None \<Rightarrow> Inl NullPointer
         | Some t \<Rightarrow>
             bindE (setNext t (head l) m) (\<lambda>m1.
             (case head l of None \<Rightarrow> Inl NullPointer
              | Some h \<Rightarrow>
                  bindE (setBack h (tail l) m1) (\<lambda>m2.
                  Inr (m2, \<lparr>len = 0, head = None, tail = None\<rparr>))))))"

definition stack_append_self :: "'a mem \<Rightarrow> Stack \<Rightarrow> (error + 'a mem \<times> Stack) option" where
  "stack_append_self m s =
     Option.bind (stack_reverse m s) (\<lambda>r.
       case r of Inl e \<Rightarrow> Some (Inl e)
       | Inr (m1, s1) \<Rightarrow>
           (case list_append_self m1 (container s1) of Inl e \<Rightarrow> Some (Inl e)
            | Inr (m2, l2) \<Rightarrow> Some (Inr (m2, s1\<lparr>container := l2\<rparr>))))"

section \<open>Observing a list\<close>

text \<open>
  \<open>walk\<close> follows \<^verbatim>\<open>next\<close> from a pointer for exactly \<open>n\<close> nodes and succeeds when it then
  stands at \<^verbatim>\<open>NULL\<close>; it returns the addresses met. The invariant of the list says that
  the walk of \<open>len\<close> nodes from \<open>head\<close> succeeds and ends at \<open>tail\<close>, and that \<open>head\<close> and
  \<open>tail\<close> are \<^verbatim>\<open>NULL\<close> exactly when \<open>len\<close> is 0.
\<close>

primrec walk :: "'a mem \<Rightarrow> addr option \<Rightarrow> nat \<Rightarrow> addr list option" where
  "walk m p 0 = (if p = None then Some [] else None)"
| "walk m p (Suc n) =
     (case p of None \<Rightarrow> None
      | Some a \<Rightarrow> (case cells m a of None \<Rightarrow> None
                  | Some nd \<Rightarrow> map_option ((#) a) (walk m (n_next nd) n)))"

definition last_ptr :: "addr list \<Rightarrow> addr option" where
  "last_ptr ps = (if ps = [] then None else Some (last ps))"

definition first_ptr :: "addr list \<Rightarrow> addr option" where
  "first_ptr ps = (if ps = [] then None else Some (hd ps))"

definition list_inv :: "'a mem \<Rightarrow> dllist \<Rightarrow> bool" where
  "list_inv m l =
     (case walk m (head l) (unat (len l)) of None \<Rightarrow> False
      | Some ps \<Rightarrow> tail l = last_ptr ps \<and> ((len l = 0) = (head l = None \<and> tail l = None)))"

text \<open>The values stored in the nodes at the given addresses.\<close>

definition values_at :: "'a mem \<Rightarrow> addr list \<Rightarrow> 'a list" where
  "values_at m ps = map (\<lambda>a. n_value (the (cells m a))) ps"

text \<open>The sequence of values of a list: those met by the walk from \<open>head\<close>.\<close>

definition contents :: "'a mem \<Rightarrow> dllist \<Rightarrow> 'a list option" where
  "contents m l = map_option (values_at m) (walk m (head l) (unat (len l)))"

text \<open>
  \<open>build xs\<close> is the list obtained from \<^verbatim>\<open>List()\<close> in an empty store by one
  \<^verbatim>\<open>pushBack\<close> per element of \<open>xs\<close>, in order.
\<close>

fun pushBack_all :: "'a mem \<Rightarrow> dllist \<Rightarrow> 'a list \<Rightarrow> error + ('a mem \<times> dllist)" where
  "pushBack_all m l [] = Inr (m, l)"
| "pushBack_all m l (x # xs) = bindE (pushBack m l x) (\<lambda>(m1, l1). pushBack_all m1 l1 xs)"

definition build :: "'a list \<Rightarrow> error + ('a mem \<times> dllist)" where
  "build xs = pushBack_all empty_mem List_new xs"

text \<open>What a caller sees of the outcome of an operation that returns store and list.\<close>

definition outcome :: "error + ('a mem \<times> dllist) \<Rightarrow> error + (bool \<times> 'a list option)" where
  "outcome r = bindE r (\<lambda>(m, l). Inr (list_inv m l, contents m l))"

section \<open>Stream operators\<close>

text \<open>
  An input stream is the text still to be read and the two state bits the source consults.
  \<^verbatim>\<open>in >> ch\<close> on a \<^verbatim>\<open>char\<close> fails (setting \<^verbatim>\<open>failbit\<close>) when the stream is not good; otherwise
  it skips white space and takes the next character, or sets \<^verbatim>\<open>eofbit\<close> and \<^verbatim>\<open>failbit\<close> when
  none is left. A failed extraction leaves \<^verbatim>\<open>ch\<close> as it was.
\<close>

record istream =
  buf :: string
  failbit :: bool
  eofbit :: bool

definition stream_good :: "istream \<Rightarrow> bool" where
  "stream_good s = (\<not> failbit s \<and> \<not> eofbit s)"

definition stream_fail :: "istream \<Rightarrow> bool" where
  "stream_fail s = failbit s"

definition setstate_failbit :: "istream \<Rightarrow> istream" where
  "setstate_failbit s = s\<lparr>failbit := True\<rparr>"

definition isspace :: "char \<Rightarrow> bool" where
  "isspace c = (c \<in> set [CHR '' '', CHR 0x09, CHR 0x0A, CHR 0x0B, CHR 0x0C, CHR 0x0D])"

definition get_char :: "istream \<Rightarrow> char \<Rightarrow> char \<times> istream" where
  "get_char s ch =
     (if \<not> stream_good s then (ch, setstate_failbit s)
      else
        (case dropWhile isspace (buf s) of
           [] \<Rightarrow> (ch, s\<lparr>buf := [], failbit := True, eofbit := True\<rparr>)
         | c # rest \<Rightarrow> (c, s\<lparr>buf := rest\<rparr>)))"

text \<open>
  \<^verbatim>\<open>operator<<(std::ostream&, const List<T>&)\<close>, over the text written so far; \<open>sh\<close> is
  \<^verbatim>\<open>operator<<\<close> of the element type.
\<close>

partial_function (option) write_loop ::
  "('a \<Rightarrow> string) \<Rightarrow> 'a mem \<Rightarrow> addr option \<Rightarrow> string \<Rightarrow> (error + string) option" where
  "write_loop sh m it out =
     (case it of None \<Rightarrow> Some (Inr out)
      | Some a \<Rightarrow>
          (case cells m a of None \<Rightarrow> Some (Inl DanglingPointer)
           | Some nd \<Rightarrow> write_loop sh m (n_next nd) (out @ '', '' @ sh (n_value nd))))"

definition list_write ::
  "('a \<Rightarrow> string) \<Rightarrow> 'a mem \<Rightarrow> dllist \<Rightarrow> string \<Rightarrow> (error + string) option" where
  "list_write sh m l out =
     (if len l > 0 then
        (case head l of None \<Rightarrow> Some (Inl NullPointer)
         | Some h \<Rightarrow>
             (case cells m h of None \<Rightarrow> Some (Inl DanglingPointer)
              | Some nd \<Rightarrow>
                  Option.bind (write_loop sh m (n_next nd) (out @ ''['' @ sh (n_value nd))) (\<lambda>r.
                    case r of Inl e \<Rightarrow> Some (Inl e)
                    | Inr out1 \<Rightarrow> Some (Inr (out1 @ '']'')))))
      else Some (Inr (out @ ''['' @ '']'')))"

text \<open>
  \<^verbatim>\<open>operator>>(std::istream&, List<T>&)\<close>; \<open>rd\<close> is \<^verbatim>\<open>T value; in >> value\<close> of the element
  type. The loop is the source's \<^verbatim>\<open>for (; ch == ',' && in.good(); in >> ch)\<close>.
\<close>

partial_function (option) read_loop ::
  "(istream \<Rightarrow> 'a \<times> istream) \<Rightarrow> 'a mem \<Rightarrow> dllist \<Rightarrow> char \<Rightarrow> istream
     \<Rightarrow> (error + 'a mem \<times> dllist \<times> char \<times> istream) option" where
  "read_loop rd m l ch s =
     (if ch = CHR '','' \<and> stream_good s then
        (case rd s of
           (v, s1) \<Rightarrow>
             (case (if stream_good s1 then pushBack m l v else Inr (m, l)) of
                Inl e \<Rightarrow> Some (Inl e)
              | Inr (m1, l1) \<Rightarrow>
                  (case get_char s1 ch of (ch2, s2) \<Rightarrow> read_loop rd m1 l1 ch2 s2)))
      else Some (Inr (m, l, ch, s)))"

definition list_read ::
  "(istream \<Rightarrow> 'a \<times> istream) \<Rightarrow> 'a mem \<Rightarrow> dllist \<Rightarrow> istream
     \<Rightarrow> (error + 'a mem \<times> dllist \<times> istream) option" where
  "list_read rd m l s =
     (case get_char s (CHR 0x00) of
        (ch, s1) \<Rightarrow>
          if stream_fail s1 then Some (Inr (m, l, setstate_failbit s1))
          else if ch \<noteq> CHR ''['' then Some (Inr (m, l, setstate_failbit s1))
          else
            (case get_char s1 ch of
               (ch2, s2) \<Rightarrow>
                 if stream_fail s2 then Some (Inr (m, l, s2))
                 else if ch2 = CHR '']'' then Some (Inr (m, l, s2))
                 else
                   Option.bind (read_loop rd m l ch2 s2) (\<lambda>r.
                     case r of Inl e \<Rightarrow> Some (Inl e)
                     | Inr (m3, l3, ch3, s3) \<Rightarrow>
                         (case get_char s3 ch3 of
                            (ch4, s4) \<Rightarrow>
                              if stream_fail s4 then Some (Inr (m3, l3, setstate_failbit s4))
                              else if ch4 \<noteq> CHR ''['' then Some (Inr (m3, l3, setstate_failbit s4))
                              else Some (Inr (m3, l3, s4))))))"

text \<open>The element type \<^verbatim>\<open>char\<close>: written as itself, read by \<^verbatim>\<open>in >> value\<close>.\<close>

definition show_char :: "char \<Rightarrow> string" where
  "show_char c = [c]"

definition read_char :: "istream \<Rightarrow> char \<times> istream" where
  "read_char s = get_char s (CHR 0x00)"

section \<open>Well-formed lists\<close>

text \<open>
  \<open>lseg m b ps e\<close>: the nodes at the addresses \<open>ps\<close> are live and chained in this order, the
  first with \<^verbatim>\<open>back\<close> \<open>b\<close> and the last with \<^verbatim>\<open>next\<close> \<open>e\<close>, every \<^verbatim>\<open>next\<close> and \<^verbatim>\<open>back\<close> in between
  naming the neighbour in \<open>ps\<close>. \<open>owns m l ps\<close> is the data-model invariant of the spec for
  a list whose nodes are, in order, \<open>ps\<close>.
\<close>

definition first_or :: "addr option \<Rightarrow> addr list \<Rightarrow> addr option" where
  "first_or e ps = (case ps of [] \<Rightarrow> e | q # qs \<Rightarrow> Some q)"

definition last_or :: "addr option \<Rightarrow> addr list \<Rightarrow> addr option" where
  "last_or b ps = (if ps = [] then b else Some (last ps))"

fun lseg :: "'a mem \<Rightarrow> addr option \<Rightarrow> addr list \<Rightarrow> addr option \<Rightarrow> bool" where
  "lseg m b [] e = True"
| "lseg m b (p # ps) e =
     (case cells m p of None \<Rightarrow> False
      | Some nd \<Rightarrow> n_back nd = b \<and> n_next nd = first_or e ps \<and> lseg m (Some p) ps e)"

definition owns :: "'a mem \<Rightarrow> dllist \<Rightarrow> addr list \<Rightarrow> bool" where
  "owns m l ps =
     (distinct ps \<and> lseg m None ps None \<and> head l = first_or None ps \<and>
      tail l = last_or None ps \<and> unat (len l) = length ps)"

text \<open>
  The resolution of an index as the spec words it: from the head by \<open>index\<close> hops when
  \<open>index \<le> length / 2\<close>, otherwise from the tail by \<open>length - index - 1\<close> hops.
\<close>

definition atNode_spec :: "'a mem \<Rightarrow> dllist \<Rightarrow> usize \<Rightarrow> error + addr option" where
  "atNode_spec m l i =
     (if i \<le> len l div 2 then
        (case head l of None \<Rightarrow> Inl NullPointer | Some h \<Rightarrow> node_plus m h i)
      else
        (case tail l of None \<Rightarrow> Inl NullPointer | Some t \<Rightarrow> node_minus m t (len l - i - 1)))"

section \<open>Scenarios\<close>

text \<open>
  Each scenario builds a list by \<open>build\<close>, applies one operation (or two) and reports what
  the caller can observe afterwards.
\<close>

definition after_insertForward :: "'a list \<Rightarrow> 'a \<Rightarrow> usize \<Rightarrow> error + (bool \<times> 'a list option)" where
  "after_insertForward xs v i = outcome (bindE (build xs) (\<lambda>(m, l). insertForward m l v i))"

definition after_insertBackward :: "'a list \<Rightarrow> 'a \<Rightarrow> usize \<Rightarrow> error + (bool \<times> 'a list option)" where
  "after_insertBackward xs v i = outcome (bindE (build xs) (\<lambda>(m, l). insertBackward m l v i))"

text \<open>After \<^verbatim>\<open>remove(i)\<close>: the value returned, the invariant, the contents.\<close>

definition after_remove :: "'a list \<Rightarrow> usize \<Rightarrow> error + ('a option \<times> bool \<times> 'a list option)" where
  "after_remove xs i =
     bindE (build xs) (\<lambda>(m, l).
     bindE (remove m l i) (\<lambda>(m1, l1, r). Inr (r, list_inv m1 l1, contents m1 l1)))"

text \<open>
  After \<^verbatim>\<open>removeIf(f)\<close> and \<^verbatim>\<open>retainIf(f)\<close>: the fields of the list, whether \<^verbatim>\<open>head\<close> names a
  live node, the count returned, the invariant, the contents.
\<close>

definition head_live :: "'a mem \<Rightarrow> dllist \<Rightarrow> bool" where
  "head_live m l = (case head l of None \<Rightarrow> False | Some a \<Rightarrow> cells m a \<noteq> None)"

definition report :: "'a mem \<Rightarrow> dllist \<Rightarrow> usize \<Rightarrow> dllist \<times> bool \<times> usize \<times> bool \<times> 'a list option" where
  "report m l k = (l, head_live m l, k, list_inv m l, contents m l)"

definition after_removeIf ::
  "'a list \<Rightarrow> ('a \<Rightarrow> bool) \<Rightarrow> (error + dllist \<times> bool \<times> usize \<times> bool \<times> 'a list option) option" where
  "after_removeIf xs f =
     (case build xs of Inl e \<Rightarrow> Some (Inl e)
      | Inr (m, l) \<Rightarrow>
          Option.bind (removeIf m l f) (\<lambda>r.
            case r of Inl e \<Rightarrow> Some (Inl e)
            | Inr (m1, l1, k) \<Rightarrow> Some (Inr (report m1 l1 k))))"

definition after_retainIf ::
  "'a list \<Rightarrow> ('a \<Rightarrow> bool) \<Rightarrow> (error + dllist \<times> bool \<times> usize \<times> bool \<times> 'a list option) option" where
  "after_retainIf xs f =
     (case build xs of Inl e \<Rightarrow> Some (Inl e)
      | Inr (m, l) \<Rightarrow>
          Option.bind (retainIf m l f) (\<lambda>r.
            case r of Inl e \<Rightarrow> Some (Inl e)
            | Inr (m1, l1, k) \<Rightarrow> Some (Inr (report m1 l1 k))))"

text \<open>
  After \<^verbatim>\<open>sliceOff(a, b)\<close>: the fields of this list, whether its \<^verbatim>\<open>head\<close> and its \<^verbatim>\<open>tail\<close>
  name live nodes, its invariant and contents; then the same for the list returned.
\<close>

definition tail_live :: "'a mem \<Rightarrow> dllist \<Rightarrow> bool" where
  "tail_live m l = (case tail l of None \<Rightarrow> False | Some a \<Rightarrow> cells m a \<noteq> None)"

definition state_of :: "'a mem \<Rightarrow> dllist \<Rightarrow> dllist \<times> bool \<times> bool \<times> bool \<times> 'a list option" where
  "state_of m l = (l, head_live m l, tail_live m l, list_inv m l, contents m l)"

definition after_sliceOff ::
  "'a list \<Rightarrow> usize \<Rightarrow> usize
     \<Rightarrow> (error + (dllist \<times> bool \<times> bool \<times> bool \<times> 'a list option) \<times>
                 (dllist \<times> bool \<times> bool \<times> bool \<times> 'a list option)) option" where
  "after_sliceOff xs a b =
     (case build xs of Inl e \<Rightarrow> Some (Inl e)
      | Inr (m, l) \<Rightarrow>
          Option.bind (sliceOff m l a b) (\<lambda>r.
            case r of Inl e \<Rightarrow> Some (Inl e)
            | Inr (m1, l1, ex) \<Rightarrow> Some (Inr (state_of m1 l1, state_of m1 ex))))"

text \<open>
  After \<^verbatim>\<open>L2 = L1.sliceOff(a, b); L1.append(L2)\<close>: \<^verbatim>\<open>_len\<close> of \<^verbatim>\<open>L1\<close>, its invariant, its
  contents, and \<^verbatim>\<open>_len\<close> of \<^verbatim>\<open>L2\<close>.
\<close>

definition after_slice_append ::
  "'a list \<Rightarrow> usize \<Rightarrow> usize \<Rightarrow> (error + usize \<times> bool \<times> 'a list option \<times> usize) option" where
  "after_slice_append xs a b =
     (case build xs of Inl e \<Rightarrow> Some (Inl e)
      | Inr (m, l) \<Rightarrow>
          Option.bind (sliceOff m l a b) (\<lambda>r.
            case r of Inl e \<Rightarrow> Some (Inl e)
            | Inr (m1, l1, ex) \<Rightarrow>
                Some (bindE (list_append m1 l1 ex) (\<lambda>(m2, l2, ex2).
                      Inr (len l2, list_inv m2 l2, contents m2 l2, len ex2)))))"

text \<open>
  Writing the list built from \<open>xs\<close> and reading the text back into a fresh \<^verbatim>\<open>List()\<close>:
  the text, the stream's \<^verbatim>\<open>fail()\<close> afterwards, and the contents of the list read.
\<close>

definition roundtrip ::
  "('a \<Rightarrow> string) \<Rightarrow> (istream \<Rightarrow> 'a \<times> istream) \<Rightarrow> 'a list
     \<Rightarrow> (error + string \<times> bool \<times> 'a list option) option" where
  "roundtrip sh rd xs =
     (case build xs of Inl e \<Rightarrow> Some (Inl e)
      | Inr (m, l) \<Rightarrow>
          Option.bind (list_write sh m l []) (\<lambda>w.
            case w of Inl e \<Rightarrow> Some (Inl e)
            | Inr txt \<Rightarrow>
                Option.bind
                  (list_read rd m List_new \<lparr>buf = txt, failbit = False, eofbit = False\<rparr>) (\<lambda>r.
                  case r of Inl e \<Rightarrow> Some (Inl e)
                  | Inr (m2, l2, s2) \<Rightarrow> Some (Inr (txt, stream_fail s2, contents m2 l2)))))"

section \<open>Auxiliary definitions for the proofs\<close>



text \<open>
  A concrete store with two lists, as \<^verbatim>\<open>pushBack\<close> builds them: \<open>listA\<close> is \<open>[10, 20, 30]\<close>
  on the nodes 0, 1, 2 and \<open>listB\<close> is \<open>[30, 10]\<close> on the nodes 3, 4; \<open>mem123\<close> is the
  store before \<open>listB\<close> was built.
\<close>

definition mem123 :: "int mem" where
  "mem123 =
     \<lparr>cells = (\<lambda>x. None)(0 \<mapsto> \<lparr>n_value = 10, n_back = None, n_next = Some 1\<rparr>,
                          1 \<mapsto> \<lparr>n_value = 20, n_back = Some 0, n_next = Some 2\<rparr>,
                          2 \<mapsto> \<lparr>n_value = 30, n_back = Some 1, n_next = None\<rparr>),
      fresh = 3\<rparr>"

definition mem5 :: "int mem" where
  "mem5 =
     \<lparr>cells = (\<lambda>x. None)(0 \<mapsto> \<lparr>n_value = 10, n_back = None, n_next = Some 1\<rparr>,
                          1 \<mapsto> \<lparr>n_value = 20, n_back = Some 0, n_next = Some 2\<rparr>,
                          2 \<mapsto> \<lparr>n_value = 30, n_back = Some 1, n_next = None\<rparr>,
                          3 \<mapsto> \<lparr>n_value = 30, n_back = None, n_next = Some 4\<rparr>,
                          4 \<mapsto> \<lparr>n_value = 10, n_back = Some 3, n_next = None\<rparr>),
      fresh = 5\<rparr>"

definition listA :: dllist where
  "listA = \<lparr>len = 3, head = Some 0, tail = Some 2\<rparr>"

definition listB :: dllist where
  "listB = \<lparr>len = 2, head = Some 3, tail = Some 4\<rparr>"

text \<open>
  Two pops from the combined stack after appending the stack on \<open>listB\<close> to the stack on
  \<open>listA\<close>: the values returned, first pop first.
\<close>

definition pops_after_append :: "(error + int \<times> int) option" where
  "pops_after_append =
     Option.bind (stack_append mem5 \<lparr>container = listA\<rparr> \<lparr>container = listB\<rparr>) (\<lambda>r.
       case r of Inl e \<Rightarrow> Some (Inl e)
       | Inr (m1, s1, t1) \<Rightarrow>
           Some (bindE (stack_pop m1 s1) (\<lambda>(m2, s2, v1).
                 bindE (stack_pop m2 s2) (\<lambda>(m3, s3, v2). Inr (v1, v2)))))"

text \<open>
  The stack on \<open>listB\<close> appended to itself: the fields of its list afterwards, and whether
  its two nodes are still live.
\<close>

definition self_append_scenario :: "(error + dllist \<times> bool \<times> bool) option" where
  "self_append_scenario =
     Option.bind (stack_append_self mem5 \<lparr>container = listB\<rparr>) (\<lambda>r.
       case r of Inl e \<Rightarrow> Some (Inl e)
       | Inr (m1, s1) \<Rightarrow> Some (Inr (container s1, cells m1 3 \<noteq> None, cells m1 4 \<noteq> None)))"

section \<open>Evaluation on concrete lists\<close>

lemma bindE_Inl: "bindE (Inl e) f = Inl e"
  by (simp add: bindE_def)

lemma bindE_Inr: "bindE (Inr x) f = f x"
  by (simp add: bindE_def)

lemma bindE_weak_cong: "r = r' \<Longrightarrow> bindE r f = bindE r' f"
  by simp

lemma obind_weak_cong: "x = y \<Longrightarrow> Option.bind x f = Option.bind y f"
  by simp

lemma numeral_le_one_word: "(numeral n \<le> (1::'a::len word)) = (unat (numeral n :: 'a word) \<le> 1)"
  by (simp add: word_le_nat_alt)

lemma numeral_less_one_word: "(numeral n < (1::'a::len word)) = (unat (numeral n :: 'a word) < 1)"
  by (simp add: word_less_nat_alt)

lemma walk_numeral:
  "walk m p (numeral k) =
     (case p of None \<Rightarrow> None
      | Some a \<Rightarrow> (case cells m a of None \<Rightarrow> None
                  | Some nd \<Rightarrow> map_option ((#) a) (walk m (n_next nd) (pred_numeral k))))"
  by (simp add: numeral_eq_Suc)

lemma hops_next_numeral:
  "hops_next m it (numeral k) =
     (case it of None \<Rightarrow> Inl NullPointer
      | Some a \<Rightarrow> bindE (load m a) (\<lambda>nd. hops_next m (n_next nd) (pred_numeral k)))"
  by (simp add: numeral_eq_Suc)

lemma hops_back_numeral:
  "hops_back m it (numeral k) =
     (case it of None \<Rightarrow> Inl NullPointer
      | Some a \<Rightarrow> bindE (load m a) (\<lambda>nd. hops_back m (n_back nd) (pred_numeral k)))"
  by (simp add: numeral_eq_Suc)

lemmas prim_defs =
  bindE_Inl bindE_Inr load_def store_def new_def delete_def node_value_def node_back_def
  node_next_def setBack_def setNext_def node_reverse_def unlink_def linkNext_def linkBack_def
  node_plus_def node_minus_def

lemmas list_defs =
  build_def empty_mem_def List_new_def pushBack_def pushFront_def popFront_def popBack_def
  atNode_def at_def list_insert_def insertForward_def insertBackward_def remove_def
  isEmpty_def list_swap_def list_append_def

lemmas slice_defs =
  after_sliceOff_def after_slice_append_def sliceOff_def List_copy_def assign_def
  assign_loop.simps clear_def clear_loop.simps state_of_def tail_live_def

lemmas obs_defs =
  list_inv_def contents_def values_at_def last_ptr_def first_ptr_def outcome_def
  head_live_def report_def

lemmas filter_defs =
  after_removeIf_def removeIf_def removeIf_loop.simps
  after_retainIf_def retainIf_def retainIf_loop.simps

lemmas stream_defs =
  roundtrip_def list_write_def write_loop.simps list_read_def read_loop.simps get_char_def
  read_char_def show_char_def stream_good_def stream_fail_def setstate_failbit_def isspace_def

lemmas ev =
  list_defs prim_defs obs_defs walk_numeral hops_next_numeral hops_back_numeral
  numeral_le_one_word numeral_less_one_word

lemmas wc = bindE_weak_cong obind_weak_cong let_weak_cong

section \<open>Claims settled by running the code\<close>

text \<open>
  C1 (invariants under every mutating operation). On the one-element list \<open>[2]\<close>,
  \<^verbatim>\<open>removeIf(even)\<close> deletes the only node and counts \<^verbatim>\<open>_len\<close> down to 0, but assigns neither
  \<^verbatim>\<open>head\<close> nor \<^verbatim>\<open>tail\<close>: both still hold the address of the deleted node, \<^verbatim>\<open>head\<close> names no
  live node, and the invariant "head and tail are absent exactly when length is 0" is false
  afterwards. The sibling \<^verbatim>\<open>retainIf\<close> does re-point \<^verbatim>\<open>head\<close>.
\<close>

theorem removeIf_only_node_breaks_invariant:
  "after_removeIf [2::int] even =
     Some (Inr (\<lparr>len = 0, head = Some 0, tail = Some 0\<rparr>, False, 1, False, None))"
  by (simp add: filter_defs ev cong: wc)

text \<open>
  C2 (\<^verbatim>\<open>remove\<close> returns the removed value in every case). On \<open>[1, 2, 3]\<close>, \<^verbatim>\<open>remove(0)\<close>
  removes the first element and leaves \<open>[2, 3]\<close>, but the branch ends in \<^verbatim>\<open>return;\<close> and hands
  no value back, where the claim and the function's own documentation promise the removed
  element 1.
\<close>

theorem remove_front_returns_no_value:
  "after_remove [1, 2, 3::int] 0 = Inr (None, True, Some [2, 3])"
  by (simp add: after_remove_def ev cong: wc)

text \<open>The last index behaves the same way; only an inner index returns the value.\<close>

lemma remove_back_returns_no_value:
  "after_remove [1, 2, 3::int] 2 = Inr (None, True, Some [1, 2])"
  by (simp add: after_remove_def ev cong: wc)

lemma remove_inner_returns_value:
  "after_remove [1, 2, 3::int] 1 = Inr (Some 2, True, Some [1, 3])"
  by (simp add: after_remove_def ev cong: wc)

text \<open>
  C3 (serialize, then deserialize, gives the list back). The one-element list of
  characters \<open>[a]\<close> is written as \<^verbatim>\<open>[a]\<close>, in the format the claim describes. Reading that
  text into an empty list takes \<^verbatim>\<open>[\<close>, then takes \<^verbatim>\<open>a\<close> as the separator character, skips
  the loop because it is not a comma, takes \<^verbatim>\<open>]\<close> and compares it with \<^verbatim>\<open>[\<close>: the stream
  ends in the failed state and the list read is empty, not \<open>[a]\<close>.
\<close>

theorem roundtrip_single_element_fails:
  "roundtrip show_char read_char ''a'' = Some (Inr (''[a]'', True, Some []))"
  by (simp add: stream_defs ev cong: wc)

text \<open>Only the empty list is read back as written.\<close>

lemma roundtrip_empty:
  "roundtrip show_char read_char [] = Some (Inr (''[]'', False, Some []))"
  by (simp add: stream_defs ev cong: wc)

lemma roundtrip_three_elements_fails:
  "roundtrip show_char read_char ''abc'' = Some (Inr (''[a, b, c]'', True, Some []))"
  by (simp add: stream_defs ev cong: wc)

text \<open>
  C4 (\<^verbatim>\<open>removeIf\<close> and \<^verbatim>\<open>retainIf\<close> re-point \<^verbatim>\<open>head\<close> and \<^verbatim>\<open>tail\<close>). On \<open>[2, 1]\<close>,
  \<^verbatim>\<open>removeIf(even)\<close> deletes the first node, returns 1 and sets \<^verbatim>\<open>_len\<close> to 1, but \<^verbatim>\<open>head\<close> still
  holds the address of the deleted node: the list does not read as \<open>[1]\<close>.
\<close>

theorem removeIf_head_not_repointed:
  "after_removeIf [2, 1::int] even =
     Some (Inr (\<lparr>len = 1, head = Some 0, tail = Some 1\<rparr>, False, 1, False, None))"
  by (simp add: filter_defs ev cong: wc)

text \<open>
  The scenario of the claim touches no endpoint and comes out as stated. \<^verbatim>\<open>retainIf\<close>
  re-points \<^verbatim>\<open>head\<close> correctly, and sets \<^verbatim>\<open>tail\<close> to the removed node's \<^verbatim>\<open>next\<close>, which is
  \<^verbatim>\<open>NULL\<close>, when the last node is removed.
\<close>

lemma removeIf_scenario:
  "after_removeIf [1, 2, 3, 4, 5::int] even =
     Some (Inr (\<lparr>len = 3, head = Some 0, tail = Some 4\<rparr>, True, 2, True, Some [1, 3, 5]))"
  by (simp add: filter_defs ev cong: wc)

lemma retainIf_head_repointed:
  "after_retainIf [2, 1::int] odd =
     Some (Inr (\<lparr>len = 1, head = Some 1, tail = Some 1\<rparr>, True, 1, True, Some [1]))"
  by (simp add: filter_defs ev cong: wc)

lemma retainIf_tail_lost:
  "after_retainIf [1, 2::int] odd =
     Some (Inr (\<lparr>len = 1, head = Some 0, tail = None\<rparr>, True, 1, False, Some [1]))"
  by (simp add: filter_defs ev cong: wc)

text \<open>
  C5 (\<^verbatim>\<open>sliceOff\<close> detaches the range from this list). On \<open>[1, 2, 3]\<close>, \<^verbatim>\<open>sliceOff(0, 2)\<close>
  returns an independent list \<open>[1, 2]\<close> on two fresh nodes, as the claim says, but assigns
  no field of this list: it keeps \<^verbatim>\<open>_len\<close> 3, and its \<^verbatim>\<open>head\<close> still holds the address of
  the first node of the range, which is deleted when the function returns. This list is
  left without its invariant and does not read as \<open>[3]\<close>.
\<close>

theorem sliceOff_prefix_not_detached:
  "after_sliceOff [1, 2, 3::int] 0 2 =
     Some (Inr ((\<lparr>len = 3, head = Some 0, tail = Some 2\<rparr>, False, True, False, None),
                (\<lparr>len = 2, head = Some 3, tail = Some 4\<rparr>, True, True, True, Some [1, 2])))"
  by (simp add: slice_defs ev cong: wc)

text \<open>
  The first half of the claim holds: the bounds are clamped to the length, and an empty
  range returns the empty list and leaves store and list as they were.
\<close>

lemma sliceOff_empty_range:
  "min b (len l) \<le> min a (len l) \<Longrightarrow> sliceOff m l a b = Some (Inr (m, l, List_new))"
  by (auto simp: sliceOff_def Let_def min_def split: if_splits)

text \<open>
  C7 (\<^verbatim>\<open>sliceOff\<close> then \<^verbatim>\<open>append\<close> restores the list). On \<open>[1, 2, 3]\<close>,
  \<^verbatim>\<open>L2 = L1.sliceOff(1, 3)\<close> leaves \<^verbatim>\<open>L1\<close> with \<^verbatim>\<open>_len\<close> 3 and with \<^verbatim>\<open>tail\<close> at the last node
  of the range, which no longer exists; \<^verbatim>\<open>L1.append(L2)\<close> then writes through that \<^verbatim>\<open>tail\<close>,
  which is undefined behaviour. \<^verbatim>\<open>L1\<close> is not \<open>[1, 2, 3]\<close> again.
\<close>

theorem sliceOff_append_not_restored:
  "after_slice_append [1, 2, 3::int] 1 3 = Some (Inl DanglingPointer)"
  by (simp add: slice_defs ev cong: wc)

text \<open>
  The state \<^verbatim>\<open>sliceOff(1, 3)\<close> leaves behind, and a range that ends before the last node,
  where \<^verbatim>\<open>append\<close> meets no deleted node: \<^verbatim>\<open>_len\<close> becomes 4 for a chain of three nodes.
\<close>

lemma sliceOff_suffix_state:
  "after_sliceOff [1, 2, 3::int] 1 3 =
     Some (Inr ((\<lparr>len = 3, head = Some 0, tail = Some 2\<rparr>, True, False, False, None),
                (\<lparr>len = 2, head = Some 3, tail = Some 4\<rparr>, True, True, True, Some [2, 3])))"
  by (simp add: slice_defs ev cong: wc)

lemma sliceOff_inner_append_length:
  "after_slice_append [1, 2, 3::int] 1 2 = Some (Inr (4, False, None, 0))"
  by (simp add: slice_defs ev cong: wc)

text \<open>
  C8 (positional insert on \<open>[A, C]\<close>), as the claim states it: \<^verbatim>\<open>insertForward(B, 1)\<close> does
  not produce \<open>[A, B, C]\<close>.
\<close>

theorem insertForward_AC_counterexample:
  "after_insertForward ''AC'' (CHR ''B'') 1 \<noteq> Inr (True, Some ''ABC'')"
  by (simp add: after_insertForward_def ev cong: wc)

text \<open>
  C8, amended: on the two-element list \<open>[A, C]\<close>, \<^verbatim>\<open>insertForward(B, 1)\<close> produces
  \<open>[A, C, B]\<close> (index 1 is \<open>length - 1\<close>, which the forward direction routes to
  \<^verbatim>\<open>pushBack\<close>: the new node follows the node at the index), and \<^verbatim>\<open>insertBackward(B, 1)\<close>
  produces \<open>[A, B, C]\<close>; both leave the list invariant intact.
\<close>

theorem insert_AC_positions:
  "after_insertForward [a, c] b 1 = Inr (True, Some [a, c, b]) \<and>
   after_insertBackward [a, c] b 1 = Inr (True, Some [a, b, c])"
  by (simp add: after_insertForward_def after_insertBackward_def ev cong: wc)

section \<open>Well-formed lists: segments and walks\<close>

lemma fixtures_built:
  "build [10, 20, 30] = Inr (mem123, listA) \<and>
   pushBack_all mem123 List_new [30, 10] = Inr (mem5, listB)"
  by (simp add: mem123_def mem5_def listA_def listB_def ev cong: wc)
    (auto simp: fun_eq_iff)

lemma lseg_nth:
  "lseg m b ps e \<Longrightarrow> i < length ps \<Longrightarrow>
     \<exists>nd. cells m (ps ! i) = Some nd \<and>
          n_next nd = (if Suc i < length ps then Some (ps ! Suc i) else e) \<and>
          n_back nd = (if i = 0 then b else Some (ps ! (i - 1)))"
proof (induction ps arbitrary: b i)
  case Nil
  then show ?case by simp
next
  case (Cons p ps)
  show ?case
  proof (cases i)
    case 0
    with Cons.prems show ?thesis
      by (cases ps) (auto simp: first_or_def split: option.splits)
  next
    case (Suc j)
    with Cons.prems have seg: "lseg m (Some p) ps e" and j: "j < length ps"
      by (auto split: option.splits)
    from Cons.IH[OF seg j] Suc show ?thesis
      by (cases j) auto
  qed
qed

lemma hops_next_lseg:
  "lseg m b ps e \<Longrightarrow> i + k < length ps \<Longrightarrow>
     hops_next m (Some (ps ! i)) k = Inr (Some (ps ! (i + k)))"
proof (induction k arbitrary: i)
  case 0
  then show ?case by simp
next
  case (Suc k)
  from Suc.prems have i: "i < length ps" and si: "Suc i < length ps" by simp_all
  from lseg_nth[OF Suc.prems(1) i] si obtain nd
    where nd: "cells m (ps ! i) = Some nd" "n_next nd = Some (ps ! Suc i)" by auto
  from Suc.prems have "Suc i + k < length ps" by simp
  from Suc.IH[OF Suc.prems(1) this] nd show ?case
    by (simp add: load_def bindE_def)
qed

lemma hops_back_lseg:
  "lseg m b ps e \<Longrightarrow> i < length ps \<Longrightarrow> k \<le> i \<Longrightarrow>
     hops_back m (Some (ps ! i)) k = Inr (Some (ps ! (i - k)))"
proof (induction k arbitrary: i)
  case 0
  then show ?case by simp
next
  case (Suc k)
  from Suc.prems obtain j where j: "i = Suc j" by (cases i) auto
  from lseg_nth[OF Suc.prems(1,2)] j obtain nd
    where nd: "cells m (ps ! i) = Some nd" "n_back nd = Some (ps ! j)" by auto
  from Suc.prems j have "j < length ps" "k \<le> j" by simp_all
  from Suc.IH[OF Suc.prems(1) this] nd j show ?case
    by (simp add: load_def bindE_def)
qed

lemma owns_nonempty:
  assumes "owns m l ps" "i < len l"
  shows "unat i < length ps" "ps \<noteq> []" "head l = Some (ps ! 0)"
    "tail l = Some (ps ! (length ps - 1))" "len l \<noteq> 0"
proof -
  from assms show a: "unat i < length ps" by (simp add: owns_def word_less_nat_alt)
  then show b: "ps \<noteq> []" by auto
  from assms b show "head l = Some (ps ! 0)"
    by (cases ps) (auto simp: owns_def first_or_def)
  from assms b show "tail l = Some (ps ! (length ps - 1))"
    by (simp add: owns_def last_or_def last_conv_nth)
  from assms show "len l \<noteq> 0" by auto
qed

lemma atNode_owns:
  assumes o: "owns m l ps" and i: "i < len l"
  shows "atNode m l i = Inr (Some (ps ! unat i))"
proof -
  note ne = owns_nonempty[OF o i]
  have seg: "lseg m None ps None" and n: "unat (len l) = length ps" using o by (simp_all add: owns_def)
  have u1: "unat (len l - 1) = length ps - 1" using ne(5) n by (simp add: unat_minus_one)
  have u2: "unat (len l - i - 1) = length ps - unat i - 1"
  proof -
    have "i \<le> len l" using i by simp
    then have a: "unat (len l - i) = length ps - unat i" using n by (simp add: unat_sub)
    have "len l - i \<noteq> 0" using i by simp
    then show ?thesis using a by (simp add: unat_minus_one)
  qed
  show ?thesis
  proof (cases "i = 0")
    case True
    then show ?thesis using ne by (simp add: atNode_def)
  next
    case nz: False
    show ?thesis
    proof (cases "i = len l - 1")
      case True
      then show ?thesis using nz ne u1 by (simp add: atNode_def)
    next
      case nl: False
      show ?thesis
      proof (cases "i \<le> len l div 2")
        case True
        from hops_next_lseg[OF seg, of 0 "unat i"] ne(1)
        have "hops_next m (Some (ps ! 0)) (unat i) = Inr (Some (ps ! unat i))" by simp
        then show ?thesis using nz nl True ne by (simp add: atNode_def node_plus_def)
      next
        case False
        from hops_back_lseg[OF seg, of "length ps - 1" "length ps - unat i - 1"] ne(1,2)
        have "hops_back m (Some (ps ! (length ps - 1))) (length ps - unat i - 1) = Inr (Some (ps ! unat i))"
          by simp
        then show ?thesis using nz nl False ne u2 by (simp add: atNode_def node_minus_def)
      qed
    qed
  qed
qed

lemma atNode_spec_owns:
  assumes o: "owns m l ps" and i: "i < len l"
  shows "atNode_spec m l i = Inr (Some (ps ! unat i))"
proof -
  note ne = owns_nonempty[OF o i]
  have seg: "lseg m None ps None" and n: "unat (len l) = length ps" using o by (simp_all add: owns_def)
  have u2: "unat (len l - i - 1) = length ps - unat i - 1"
  proof -
    have "i \<le> len l" using i by simp
    then have a: "unat (len l - i) = length ps - unat i" using n by (simp add: unat_sub)
    have "len l - i \<noteq> 0" using i by simp
    then show ?thesis using a by (simp add: unat_minus_one)
  qed
  show ?thesis
  proof (cases "i \<le> len l div 2")
    case True
    from hops_next_lseg[OF seg, of 0 "unat i"] ne(1)
    have "hops_next m (Some (ps ! 0)) (unat i) = Inr (Some (ps ! unat i))" by simp
    then show ?thesis using True ne by (simp add: atNode_spec_def node_plus_def)
  next
    case False
    from hops_back_lseg[OF seg, of "length ps - 1" "length ps - unat i - 1"] ne(1,2)
    have "hops_back m (Some (ps ! (length ps - 1))) (length ps - unat i - 1) = Inr (Some (ps ! unat i))"
      by simp
    then show ?thesis using False ne u2 by (simp add: atNode_spec_def node_minus_def)
  qed
qed

lemma at_owns:
  assumes o: "owns m l ps"
  shows "at m l i = (if len l \<le> i then Inl IndexOutOfRange else Inr (values_at m ps ! unat i))"
proof (cases "len l \<le> i")
  case True
  then show ?thesis by (simp add: at_def)
next
  case False
  then have i: "i < len l" by simp
  have seg: "lseg m None ps None" using o by (simp add: owns_def)
  note ne = owns_nonempty[OF o i]
  from lseg_nth[OF seg ne(1)] obtain nd where nd: "cells m (ps ! unat i) = Some nd" by auto
  then show ?thesis using False atNode_owns[OF o i] ne(1)
    by (simp add: at_def bindE_def node_value_def load_def values_at_def)
qed

text \<open>
  C6 (bounds-checked access). For every well-formed list, \<^verbatim>\<open>at(index)\<close> fails with
  \<open>IndexOutOfRange\<close> exactly when \<open>index \<ge> length\<close> and otherwise returns the element at
  position \<open>index\<close>; for an index in range, the node the source resolves (\<open>atNode\<close>, with its
  shortcuts for the first and the last index) is the node of the spec's shorter-walk rule
  (\<open>atNode_spec\<close>: from the head by \<open>index\<close> hops when \<open>index \<le> length / 2\<close>, otherwise from
  the tail by \<open>length - index - 1\<close> hops), namely the node at position \<open>index\<close>.
\<close>

theorem at_bounds_checked:
  assumes "owns m l ps"
  shows "at m l i = (if len l \<le> i then Inl IndexOutOfRange else Inr (values_at m ps ! unat i)) \<and>
         (i < len l \<longrightarrow> atNode m l i = atNode_spec m l i \<and> atNode m l i = Inr (Some (ps ! unat i)))"
  using at_owns[OF assms] atNode_owns[OF assms] atNode_spec_owns[OF assms] by simp

text \<open>
  On the list \<open>[10, 20, 30]\<close>: \<^verbatim>\<open>at(5)\<close> fails with \<open>IndexOutOfRange\<close>, \<^verbatim>\<open>at(1)\<close> is 20 and
  \<^verbatim>\<open>at(2)\<close> is 30.
\<close>

theorem at_bounds_checked_witness:
  "owns mem5 listA [0, 1, 2] \<and> at mem5 listA 5 = Inl IndexOutOfRange \<and>
   at mem5 listA 1 = Inr 20 \<and> at mem5 listA 2 = Inr 30 \<and>
   atNode mem5 listA 1 = atNode_spec mem5 listA 1"
  using at_bounds_checked[of mem5 listA "[0, 1, 2]" 5]
    at_bounds_checked[of mem5 listA "[0, 1, 2]" 1]
    at_bounds_checked[of mem5 listA "[0, 1, 2]" 2]
  by (simp add: owns_def mem5_def listA_def first_or_def last_or_def values_at_def
      numeral_le_one_word numeral_less_one_word)

section \<open>Search\<close>

lemma unat_plus_one_bound:
  fixes i :: usize
  assumes "unat i + Suc n < 2 ^ 64"
  shows "unat (i + 1) = unat i + 1" "i \<noteq> NO_POS"
proof -
  have "unat i + unat (1::usize) < 2 ^ LENGTH(64)" using assms by simp
  then show a: "unat (i + 1) = unat i + 1" by (simp add: unat_add_lem[THEN iffD1])
  show "i \<noteq> NO_POS"
  proof
    assume "i = NO_POS"
    then have "i + 1 = 0" by (simp add: NO_POS_def)
    then show False using a by simp
  qed
qed

lemma find_loop_lseg:
  "lseg m b qs None \<Longrightarrow> unat i + length qs < 2 ^ 64 \<Longrightarrow>
   \<exists>r. find_loop m v (first_or None qs) i = Some (Inr r) \<and>
       (r \<noteq> NO_POS) = (v \<in> set (values_at m qs))"
proof (induction qs arbitrary: b i)
  case Nil
  show ?case by (subst find_loop.simps) (simp add: first_or_def values_at_def)
next
  case (Cons q qs)
  from Cons.prems(1) obtain nd where nd: "cells m q = Some nd" "n_next nd = first_or None qs"
    and seg: "lseg m (Some q) qs None" by (auto split: option.splits)
  from Cons.prems(2) have bnd: "unat i + Suc (length qs) < 2 ^ 64" by simp
  note w = unat_plus_one_bound[OF bnd]
  show ?case
  proof (cases "n_value nd = v")
    case True
    have "find_loop m v (first_or None (q # qs)) i = Some (Inr i)"
      by (subst find_loop.simps) (simp add: first_or_def nd True)
    then show ?thesis using w(2) nd True by (simp add: values_at_def)
  next
    case False
    have step: "find_loop m v (first_or None (q # qs)) i = find_loop m v (first_or None qs) (i + 1)"
      by (subst find_loop.simps) (simp add: first_or_def nd False)
    from bnd w(1) have "unat (i + 1) + length qs < 2 ^ 64" by simp
    from Cons.IH[OF seg this] obtain r where
      r: "find_loop m v (first_or None qs) (i + 1) = Some (Inr r)"
         "(r \<noteq> NO_POS) = (v \<in> set (values_at m qs))" by blast
    then show ?thesis using step nd False by (simp add: values_at_def)
  qed
qed

lemma contains_owns:
  assumes o: "owns m l ps"
  shows "contains m l v = Some (Inr (v \<in> set (values_at m ps)))"
proof -
  have seg: "lseg m None ps None" and n: "unat (len l) = length ps"
    and h: "head l = first_or None ps" using o by (simp_all add: owns_def)
  have "unat (len l) < 2 ^ 64" using unsigned_less[of "len l", where ?'a = nat] by simp
  then have bnd: "unat (0::usize) + length ps < 2 ^ 64" using n by simp
  from find_loop_lseg[OF seg bnd, of v] obtain r where
    r: "find_loop m v (first_or None ps) 0 = Some (Inr r)"
       "(r \<noteq> NO_POS) = (v \<in> set (values_at m ps))" by blast
  show ?thesis
  proof (cases ps)
    case Nil
    then have "len l = 0" using n by (simp add: unat_eq_0)
    then show ?thesis using Nil by (simp add: contains_def list_find_def values_at_def)
  next
    case (Cons p ps')
    then have "len l \<noteq> 0" using n by auto
    then have "\<not> len l \<le> 0" by simp
    then show ?thesis using Cons h r
      by (simp add: contains_def list_find_def node_plus_def first_or_def)
  qed
qed

lemma contains_loop_lseg:
  assumes o: "owns m l ps"
  shows "lseg m b qs None \<Longrightarrow>
     contains_loop m l (first_or None qs) =
       Some (Inr (set (values_at m qs) \<subseteq> set (values_at m ps)))"
proof (induction qs arbitrary: b)
  case Nil
  show ?case by (subst contains_loop.simps) (simp add: first_or_def values_at_def)
next
  case (Cons q qs)
  from Cons.prems(1) obtain nd where nd: "cells m q = Some nd" "n_next nd = first_or None qs"
    and seg: "lseg m (Some q) qs None" by (auto split: option.splits)
  show ?case
    by (subst contains_loop.simps)
       (simp add: first_or_def[of _ "q # qs"] nd contains_owns[OF o] Cons.IH[OF seg] values_at_def)
qed

text \<open>
  C10 (\<^verbatim>\<open>contains\<close> of a list). For well-formed lists \<open>A\<close> and \<open>B\<close> in one store,
  \<^verbatim>\<open>A.contains(B)\<close> returns, and returns true exactly when every value occurring in \<open>B\<close>
  occurs in \<open>A\<close>; order and multiplicity play no part, and for an empty \<open>B\<close> the answer is
  true whatever \<open>A\<close> is.
\<close>

theorem contains_list_subset:
  assumes "owns m A ps" and "owns m B qs"
  shows "contains_list m A B = Some (Inr (set (values_at m qs) \<subseteq> set (values_at m ps)))"
proof -
  from assms(2) have "lseg m None qs None" "head B = first_or None qs" by (simp_all add: owns_def)
  then show ?thesis using contains_loop_lseg[OF assms(1)] by (simp add: contains_list_def)
qed

text \<open>For an empty \<open>B\<close> the loop body never runs, whatever the state of \<open>A\<close>.\<close>

lemma contains_list_empty:
  "head B = None \<Longrightarrow> contains_list m A B = Some (Inr True)"
  by (simp add: contains_list_def contains_loop.simps)

text \<open>
  \<open>[10, 20, 30]\<close> contains \<open>[30, 10]\<close>, and \<open>[30, 10]\<close> does not contain \<open>[10, 20, 30]\<close>.
\<close>

theorem contains_list_subset_witness:
  "owns mem5 listA [0, 1, 2] \<and> owns mem5 listB [3, 4] \<and>
   contains_list mem5 listA listB = Some (Inr True) \<and>
   contains_list mem5 listB listA = Some (Inr False)"
  using contains_list_subset[of mem5 listA "[0, 1, 2]" listB "[3, 4]"]
    contains_list_subset[of mem5 listB "[3, 4]" listA "[0, 1, 2]"]
  by (simp add: owns_def mem5_def listA_def listB_def first_or_def last_or_def values_at_def)

section \<open>Reverse, append and the stack\<close>



















text \<open>The two pops return 30, the element pushed first onto the appended stack, and then 10.\<close>

lemma pops_after_append_values: "pops_after_append = Some (Inr (30, 10))"
  by (simp add: pops_after_append_def stack_append_def stack_reverse_def list_reverse_def
      reverse_loop.simps stack_pop_def mem5_def listA_def listB_def ev cong: wc)



text \<open>
  The two stacks must be distinct objects: a stack appended to itself ends with \<^verbatim>\<open>_len\<close> 0
  and no \<^verbatim>\<open>head\<close> or \<^verbatim>\<open>tail\<close>, while its two nodes stay allocated.
\<close>

lemma stack_append_self_empties:
  "self_append_scenario = Some (Inr (\<lparr>len = 0, head = None, tail = None\<rparr>, True, True))"
  by (simp add: self_append_scenario_def stack_append_self_def list_append_self_def
      stack_reverse_def list_reverse_def reverse_loop.simps mem5_def listB_def ev cong: wc)

end
